theory Spec2Isabelle
  imports Complex_Main
begin

section \<open>Data model of the house designer\<close>

text \<open>
  The TypeScript sources keep every quantity in the type \<open>number\<close>. The embedding reads a
  \<open>number\<close> that holds a measure (metres, square metres, prices, fractions) as a \<open>real\<close>
  and a \<open>number\<close> that holds a floor level as an \<open>int\<close>; rounding error, \<open>NaN\<close> and the
  infinities of the IEEE doubles have no counterpart in the model. Field names carry a prefix where
  the plain name is an Isabelle keyword or a HOL constant (\<open>end\<close>, \<open>id\<close>, \<open>length\<close>) or is
  shared by two interfaces (\<open>width\<close>, \<open>height\<close>, \<open>position\<close>, \<open>color\<close>).
\<close>

record Point2D =
  p_x :: real
  p_z :: real

datatype window_style = Rectangular | Arched | Bay | WinSliding | Casement | Awning

datatype door_style = Single | Double | DoorSliding | French | Bifold | Pocket

datatype staircase_style = Straight | LShaped | UShaped | Spiral

datatype wall_type = Solid | Railing

datatype roof_style = Flat | Gable | Shed

datatype slope_direction = North | South | East | West

datatype floor_texture = Concrete | Wood | Tile | Marble | Carpet

record Window =
  win_id :: string
  win_position :: real
  win_width :: real
  win_height :: real
  win_style :: window_style
  win_sillHeight :: real
  win_color :: string

record Door =
  door_id :: string
  door_position :: real
  door_width :: real
  door_height :: real
  door_style :: door_style
  door_color :: string

record Staircase =
  stair_id :: string
  stair_position :: Point2D
  stair_rotation :: real
  stair_width :: real
  fromFloor :: int
  toFloor :: int
  stair_style :: staircase_style
  stair_color :: string

record Wall =
  wall_id :: string
  wall_start :: Point2D
  wall_end :: Point2D
  wall_height :: real
  wall_thickness :: real
  windows :: "Window list"
  doors :: "Door list"
  wall_material :: string
  wall_color :: string
  wallType :: wall_type

record Beam =
  beam_id :: string
  beam_start :: Point2D
  beam_end :: Point2D
  beam_height :: real
  beam_width :: real
  beam_depth :: real
  beam_material :: string
  beam_color :: string
  beam_floorLevel :: int

record Floor =
  floor_id :: string
  level :: int
  floor_height :: real
  walls :: "Wall list"
  beams :: "Beam list"
  floor_color :: string
  floor_texture :: floor_texture

record PlotBounds =
  width :: real
  depth :: real

record FloorPlan =
  fp_walls :: "Wall list"
  totalArea :: real
  plotBounds :: PlotBounds
  floors :: "Floor list"
  staircases :: "Staircase list"
  roofStyle :: roof_style
  roofColor :: string
  roofSlopeDirection :: slope_direction

section \<open>Pure calculation functions\<close>

subsection \<open>Polygon area (\<open>calculatePolygonArea\<close>)\<close>

text \<open>
  The source loop
  \<^verbatim>\<open>for (let i = 0; i < points.length; i++) { const j = (i + 1) % points.length; area += points[i].x * points[j].z; area -= points[j].x * points[i].z }\<close>
  is the recursion \<open>polygon_loop\<close> on the loop counter \<open>i\<close> with the accumulator \<open>area\<close>.
  Both reads \<open>points[i]\<close> and \<open>points[j]\<close> are in range while \<open>i < points.length\<close>.
\<close>

function polygon_loop :: "Point2D list \<Rightarrow> nat \<Rightarrow> real \<Rightarrow> real" where
  "polygon_loop points i area =
     (if i < length points then
        (let j = (i + 1) mod length points;
             area1 = area + p_x (points ! i) * p_z (points ! j);
             area2 = area1 - p_x (points ! j) * p_z (points ! i)
         in polygon_loop points (i + 1) area2)
      else area)"
  by pat_completeness auto
termination
  by (relation "measure (\<lambda>(points, i, area). length points - i)") auto

definition calculatePolygonArea :: "Point2D list \<Rightarrow> real" where
  "calculatePolygonArea points =
     (if length points < 3 then 0 else \<bar>polygon_loop points 0 0\<bar> / 2)"

text \<open>The determinant sum of the shoelace formula, with cyclic indices.\<close>

definition shoelace_sum :: "Point2D list \<Rightarrow> real" where
  "shoelace_sum points =
     (\<Sum>i = 0..<length points.
        p_x (points ! i) * p_z (points ! ((i + 1) mod length points))
        - p_x (points ! ((i + 1) mod length points)) * p_z (points ! i))"

subsection \<open>Grid snapping (\<open>snapToGrid\<close>)\<close>

text \<open>
  \<^verbatim>\<open>Math.round(value / gridSize) * gridSize\<close>; \<open>Math.round\<close> rounds half up, which is
  \<open>round\<close> of HOL (\<open>round x = \<lfloor>x + 1/2\<rfloor>\<close>).
\<close>

definition snapToGrid :: "real \<Rightarrow> real \<Rightarrow> real" where
  "snapToGrid v gridSize = of_int (round (v / gridSize)) * gridSize"

subsection \<open>Distances and the wall tool of the drawing surface\<close>

definition calculateDistance :: "Point2D \<Rightarrow> Point2D \<Rightarrow> real" where
  "calculateDistance p1 p2 = sqrt ((p_x p2 - p_x p1) ^ 2 + (p_z p2 - p_z p1) ^ 2)"

fun findNearestPoint :: "Point2D \<Rightarrow> Wall list \<Rightarrow> real \<Rightarrow> Point2D option" where
  "findNearestPoint point [] threshold = None"
| "findNearestPoint point (wall # rest) threshold =
     (let distToStart = calculateDistance point (wall_start wall);
          distToEnd = calculateDistance point (wall_end wall)
      in if distToStart < threshold then Some (wall_start wall)
         else if distToEnd < threshold then Some (wall_end wall)
         else findNearestPoint point rest threshold)"

definition canvasToWorld :: "Point2D \<Rightarrow> Point2D" where
  \<comment> \<open>\<open>scale = 20\<close>, \<open>centerX = 500 / 2\<close>, \<open>centerY = 600 / 2\<close>\<close>
  "canvasToWorld point =
     \<lparr>p_x = (p_x point - 500 / 2) / 20, p_z = - (p_z point - 600 / 2) / 20\<rparr>"

definition snappedPoint :: "Point2D \<Rightarrow> Point2D" where
  \<comment> \<open>\<open>snapToGrid\<close> with its default \<open>gridSize = 0.5\<close> on both coordinates\<close>
  "snappedPoint canvasPoint =
     (let worldPoint = canvasToWorld canvasPoint
      in \<lparr>p_x = snapToGrid (p_x worldPoint) (1 / 2), p_z = snapToGrid (p_z worldPoint) (1 / 2)\<rparr>)"

definition wallToolPoint :: "Point2D \<Rightarrow> Wall list \<Rightarrow> Point2D" where
  \<comment> \<open>\<^verbatim>\<open>findNearestPoint(snappedPoint, walls) || snappedPoint\<close>, the point \<open>handleMouseDown\<close>
      takes as the start and as the end of a wall drawn with the wall tool\<close>
  "wallToolPoint canvasPoint ws =
     (case findNearestPoint (snappedPoint canvasPoint) ws 1 of
        Some nearestPoint \<Rightarrow> nearestPoint
      | None \<Rightarrow> snappedPoint canvasPoint)"

subsection \<open>Perimeter tracing (the roof mesh and \<open>findEnclosedArea\<close>)\<close>

text \<open>
  The roof mesh orders the wall segments of the top floor into a perimeter: it starts from
  segment \<open>0\<close> and repeatedly looks for the first unused segment with an endpoint within
  \<open>0.1\<close> of the current point. \<open>usedSegments\<close> is a JavaScript \<open>Set\<close> of indices: here a list,
  with \<open>has\<close> as membership, \<open>add\<close> as \<open>List.insert\<close> and \<open>size\<close> as the number of distinct
  elements. The inner \<open>for\<close> loop is \<open>findConnection\<close>, the \<open>while\<close> loop is \<open>traceLoop\<close>.
  The last component of the loop state counts the iterations of the \<open>while\<close> body; it is
  not in the source and nothing in the loop reads it.
\<close>

record Segment =
  seg_start :: Point2D
  seg_end :: Point2D

definition near :: "Point2D \<Rightarrow> Point2D \<Rightarrow> bool" where
  "near a c = (\<bar>p_x a - p_x c\<bar> < 1 / 10 \<and> \<bar>p_z a - p_z c\<bar> < 1 / 10)"

function findConnection :: "Segment list \<Rightarrow> nat list \<Rightarrow> Point2D \<Rightarrow> nat \<Rightarrow> (nat \<times> Point2D) option" where
  "findConnection wallSegments usedSegments currentPoint i =
     (if i < length wallSegments then
        (if i \<in> set usedSegments then findConnection wallSegments usedSegments currentPoint (i + 1)
         else
           (let segment = wallSegments ! i
            in if near (seg_start segment) currentPoint then Some (i, seg_end segment)
               else if near (seg_end segment) currentPoint then Some (i, seg_start segment)
               else findConnection wallSegments usedSegments currentPoint (i + 1)))
      else None)"
  by pat_completeness auto
termination
  by (relation "measure (\<lambda>(wallSegments, usedSegments, currentPoint, i). length wallSegments - i)") auto

lemma findConnection_Some:
  "findConnection wallSegments usedSegments currentPoint i = Some (k, p) \<Longrightarrow>
   k < length wallSegments \<and> k \<notin> set usedSegments \<and> i \<le> k"
proof (induction wallSegments usedSegments currentPoint i rule: findConnection.induct)
  case (1 wallSegments usedSegments currentPoint i)
  note unf = findConnection.simps[of wallSegments usedSegments currentPoint i]
  show ?case
  proof (cases "i < length wallSegments")
    case inr: True
    show ?thesis
    proof (cases "i \<in> set usedSegments")
      case True
      with inr "1.prems" have "findConnection wallSegments usedSegments currentPoint (i + 1) = Some (k, p)"
        by (simp add: unf)
      from "1.IH"(1)[OF inr True this] show ?thesis by simp
    next
      case notused: False
      show ?thesis
      proof (cases "near (seg_start (wallSegments ! i)) currentPoint")
        case True
        with inr notused "1.prems" have "k = i" by (simp add: unf)
        with inr notused show ?thesis by simp
      next
        case ns: False
        show ?thesis
        proof (cases "near (seg_end (wallSegments ! i)) currentPoint")
          case True
          with inr notused ns "1.prems" have "k = i" by (simp add: unf)
          with inr notused show ?thesis by simp
        next
          case False
          with inr notused ns "1.prems"
          have "findConnection wallSegments usedSegments currentPoint (i + 1) = Some (k, p)"
            by (simp add: unf)
          from "1.IH"(2)[OF inr notused refl ns False this] show ?thesis by simp
        qed
      qed
    qed
  next
    case False
    with "1.prems" show ?thesis by (simp add: unf)
  qed
qed



function traceLoop :: "Segment list \<Rightarrow> Point2D list \<Rightarrow> nat list \<Rightarrow> Point2D \<Rightarrow> nat
    \<Rightarrow> Point2D list \<times> nat list \<times> Point2D \<times> nat" where
  "traceLoop wallSegments orderedPoints usedSegments currentPoint iterations =
     (if card (set usedSegments) < length wallSegments then
        (case findConnection wallSegments usedSegments currentPoint 0 of
           Some (i, p) \<Rightarrow>
             traceLoop wallSegments (orderedPoints @ [p]) (List.insert i usedSegments) p (iterations + 1)
         | None \<Rightarrow> (orderedPoints, usedSegments, currentPoint, iterations + 1))
      else (orderedPoints, usedSegments, currentPoint, iterations))"
  by pat_completeness auto
termination
proof (relation "measure (\<lambda>(wallSegments, orderedPoints, usedSegments, currentPoint, iterations).
                    length wallSegments - card (set usedSegments))", goal_cases)
  case 1
  show ?case by simp
next
  case (2 wallSegments orderedPoints usedSegments currentPoint iterations x2 i p)
  then have "i \<notin> set usedSegments"
    using findConnection_Some[of wallSegments usedSegments currentPoint 0 i p] by simp
  then have "card (set (List.insert i usedSegments)) = card (set usedSegments) + 1" by simp
  with 2 show ?case by simp
qed


definition tracePerimeter :: "Segment list \<Rightarrow> Point2D list \<times> nat" where
  "tracePerimeter wallSegments =
     (if length wallSegments > 0 then
        (let s0 = wallSegments ! 0;
             (orderedPoints, usedSegments, currentPoint, iterations) =
                traceLoop wallSegments [seg_start s0, seg_end s0] [0] (seg_end s0) 0
         in (orderedPoints, iterations))
      else ([], 0))"

text \<open>
  \<open>findEnclosedArea\<close> walks the walls in the same way, with a \<open>Set\<close> of wall ids and
  \<open>walls.find\<close> for the next wall.
\<close>

definition connects :: "Point2D \<Rightarrow> string list \<Rightarrow> Wall \<Rightarrow> bool" where
  "connects currentPoint usedWalls wall =
     (wall_id wall \<notin> set usedWalls
      \<and> (calculateDistance currentPoint (wall_start wall) < 1 / 10
           \<or> calculateDistance currentPoint (wall_end wall) < 1 / 10))"

function enclosedLoop :: "Wall list \<Rightarrow> Point2D list \<Rightarrow> string list \<Rightarrow> string list \<Rightarrow> Point2D \<Rightarrow> nat
    \<Rightarrow> Point2D list \<times> string list \<times> string list \<times> Point2D \<times> nat" where
  "enclosedLoop ws points wallIds usedWalls currentPoint iterations =
     (if card (set usedWalls) < length ws then
        (case find (connects currentPoint usedWalls) ws of
           None \<Rightarrow> (points, wallIds, usedWalls, currentPoint, iterations + 1)
         | Some nextWall \<Rightarrow>
             (let currentPoint' =
                    (if calculateDistance currentPoint (wall_start nextWall) < 1 / 10
                     then wall_end nextWall else wall_start nextWall)
              in enclosedLoop ws (points @ [currentPoint']) (wallIds @ [wall_id nextWall])
                   (List.insert (wall_id nextWall) usedWalls) currentPoint' (iterations + 1)))
      else (points, wallIds, usedWalls, currentPoint, iterations))"
  by pat_completeness auto
termination
proof (relation "measure (\<lambda>(ws, points, wallIds, usedWalls, currentPoint, iterations).
                    length ws - card (set usedWalls))", goal_cases)
  case 1
  show ?case by simp
next
  case (2 ws points wallIds usedWalls currentPoint iterations nextWall currentPoint')
  then have "connects currentPoint usedWalls nextWall"
    by (auto simp: find_Some_iff)
  then have "wall_id nextWall \<notin> set usedWalls" by (simp add: connects_def)
  then have "card (set (List.insert (wall_id nextWall) usedWalls)) = card (set usedWalls) + 1" by simp
  with 2 show ?case by simp
qed

record EnclosedArea =
  ea_area :: real
  ea_wallIds :: "string list"

definition enclosedWalk :: "Wall list \<Rightarrow> Point2D list \<times> string list \<times> string list \<times> Point2D \<times> nat" where
  \<comment> \<open>the state after the \<open>while\<close> loop of \<open>findEnclosedArea\<close>, started at \<open>walls[0]\<close>\<close>
  "enclosedWalk ws =
     (let currentWall = ws ! 0;
          currentPoint = wall_start currentWall
      in enclosedLoop ws [currentPoint] [wall_id currentWall] [wall_id currentWall] currentPoint 0)"

definition findEnclosedArea :: "Wall list \<Rightarrow> EnclosedArea option" where
  "findEnclosedArea ws =
     (if length ws < 3 then None
      else
        (let (points, wallIds, usedWalls, currentPoint, iterations) = enclosedWalk ws
         in if length points \<ge> 3
               \<and> calculateDistance (points ! 0) (points ! (length points - 1)) < 1 / 10
            then Some \<lparr>ea_area = calculatePolygonArea points, ea_wallIds = wallIds\<rparr>
            else None))"

text \<open>Example data: the four sides of a square (the second one drawn backwards) and a triangle of walls.\<close>

definition squareSegments :: "Segment list" where
  "squareSegments =
     [\<lparr>seg_start = \<lparr>p_x = 0, p_z = 0\<rparr>, seg_end = \<lparr>p_x = 4, p_z = 0\<rparr>\<rparr>,
      \<lparr>seg_start = \<lparr>p_x = 4, p_z = 4\<rparr>, seg_end = \<lparr>p_x = 4, p_z = 0\<rparr>\<rparr>,
      \<lparr>seg_start = \<lparr>p_x = 4, p_z = 4\<rparr>, seg_end = \<lparr>p_x = 0, p_z = 4\<rparr>\<rparr>,
      \<lparr>seg_start = \<lparr>p_x = 0, p_z = 4\<rparr>, seg_end = \<lparr>p_x = 0, p_z = 0\<rparr>\<rparr>]"

definition plainWall :: "string \<Rightarrow> Point2D \<Rightarrow> Point2D \<Rightarrow> Wall" where
  "plainWall i a b =
     \<lparr>wall_id = i, wall_start = a, wall_end = b, wall_height = 3, wall_thickness = 15 / 100,
      windows = [], doors = [], wall_material = ''concrete'', wall_color = ''#d1d5db'',
      wallType = Solid\<rparr>"

definition triangleWalls :: "Wall list" where
  "triangleWalls =
     [plainWall ''a'' \<lparr>p_x = 0, p_z = 0\<rparr> \<lparr>p_x = 4, p_z = 0\<rparr>,
      plainWall ''b'' \<lparr>p_x = 0, p_z = 3\<rparr> \<lparr>p_x = 0, p_z = 0\<rparr>,
      plainWall ''c'' \<lparr>p_x = 4, p_z = 0\<rparr> \<lparr>p_x = 0, p_z = 3\<rparr>]"

subsection \<open>Roof area and material estimate (the box-house estimator)\<close>

record Bounds =
  minX :: real
  maxX :: real
  minZ :: real
  maxZ :: real

text \<open>
  \<open>roofAreaFromBounds(bounds, roofPitch = 30, overhang = 0)\<close>; a \<open>null\<close> bounds is \<open>None\<close>.
  Over the reals \<open>1 / cos pitchRad\<close> has no value where the cosine is \<open>0\<close> (HOL returns \<open>0\<close>
  there); the property below is stated away from that point.
\<close>

definition roofAreaFromBounds :: "Bounds option \<Rightarrow> real \<Rightarrow> real \<Rightarrow> real" where
  "roofAreaFromBounds bounds roofPitch overhang =
     (case bounds of
        None \<Rightarrow> 0
      | Some b \<Rightarrow>
          (let width' = max (1 / 1000) \<bar>maxX b - minX b\<bar>;
               depth' = max (1 / 1000) \<bar>maxZ b - minZ b\<bar>;
               widthWithOverhang = width' + 2 * overhang;
               depthWithOverhang = depth' + 2 * overhang;
               roofRun = widthWithOverhang / 2;
               pitchRad = (roofPitch * pi) / 180;
               slopeFactor = 1 / cos pitchRad;
               singleSideArea = roofRun * depthWithOverhang * slopeFactor
           in singleSideArea * 2))"

record Rates =
  hollowblock_per_piece :: real
  hollowblock_size_sqm :: real
  cement_bag_per_sqm :: real
  cement_price_per_bag :: real
  rebar_price_per_kg :: real
  labor_per_sqm :: real
  roof_price_per_sqm :: real

definition rates :: Rates where
  "rates =
     \<lparr>hollowblock_per_piece = 15, hollowblock_size_sqm = 8 / 100,
      cement_bag_per_sqm = 45 / 100, cement_price_per_bag = 270,
      rebar_price_per_kg = 75, labor_per_sqm = 380, roof_price_per_sqm = 150\<rparr>"

record BoxWall =
  x1 :: real
  z1 :: real
  x2 :: real
  z2 :: real
  bw_length :: real
  bw_height :: real
  bw_thickness :: real

definition makeRectangleWalls :: "real \<Rightarrow> real \<Rightarrow> real \<Rightarrow> BoxWall list" where
  \<comment> \<open>the four walls of a square house; the empty \<open>windows\<close> arrays are not modelled\<close>
  "makeRectangleWalls side wallHeight' wallThickness' =
     (let h = side / 2; s = side
      in [\<lparr>x1 = - h, z1 = - h, x2 = h, z2 = - h,
           bw_length = s, bw_height = wallHeight', bw_thickness = wallThickness'\<rparr>,
          \<lparr>x1 = h, z1 = - h, x2 = h, z2 = h,
           bw_length = s, bw_height = wallHeight', bw_thickness = wallThickness'\<rparr>,
          \<lparr>x1 = h, z1 = h, x2 = - h, z2 = h,
           bw_length = s, bw_height = wallHeight', bw_thickness = wallThickness'\<rparr>,
          \<lparr>x1 = - h, z1 = h, x2 = - h, z2 = - h,
           bw_length = s, bw_height = wallHeight', bw_thickness = wallThickness'\<rparr>])"

record Estimate =
  totalWallArea :: real
  hollowblock_count :: real
  cement_bags :: real
  rebar_cost :: real
  material_cost :: real
  labor_cost :: real
  total_cost :: real

definition wallArea :: "real \<Rightarrow> real \<Rightarrow> real" where
  "wallArea len height = len * height"

text \<open>
  \<open>estimateMaterials\<close> mutates the object \<open>results\<close> statement by statement; each \<open>let\<close>
  below is one statement of the source, in its order. \<open>Math.ceil\<close> is \<open>\<lceil>_\<rceil>\<close> and
  \<open>Math.round\<close> is \<open>round\<close>. The division by \<open>hollowblock_size_sqm\<close> has no real value for a
  rate table whose block size is \<open>0\<close>.
\<close>

definition estimateMaterials :: "BoxWall list \<Rightarrow> real \<Rightarrow> Rates \<Rightarrow> Estimate" where
  "estimateMaterials ws roofArea config =
     (let results0 = \<lparr>totalWallArea = 0, hollowblock_count = 0, cement_bags = 0, rebar_cost = 0,
                       material_cost = 0, labor_cost = 0, total_cost = 0\<rparr>;
          results1 = fold (\<lambda>w results.
                        (let area = wallArea (bw_length w) (bw_height w)
                         in results\<lparr>totalWallArea := totalWallArea results + area\<rparr>))
                      ws results0;
          results2 = results1\<lparr>hollowblock_count :=
                        of_int \<lceil>totalWallArea results1 / hollowblock_size_sqm config\<rceil>\<rparr>;
          results3 = results2\<lparr>material_cost :=
                        material_cost results2 + hollowblock_count results2 * hollowblock_per_piece config\<rparr>;
          results4 = results3\<lparr>cement_bags :=
                        of_int \<lceil>totalWallArea results3 * cement_bag_per_sqm config\<rceil>\<rparr>;
          results5 = results4\<lparr>material_cost :=
                        material_cost results4 + cement_bags results4 * cement_price_per_bag config\<rparr>;
          totalPerimeter = fold (\<lambda>w s. s + bw_length w) ws 0;
          assumedRebarKg = totalPerimeter * 2;
          results6 = results5\<lparr>rebar_cost := assumedRebarKg * rebar_price_per_kg config\<rparr>;
          results7 = results6\<lparr>material_cost := material_cost results6 + rebar_cost results6\<rparr>;
          results8 = results7\<lparr>labor_cost := totalWallArea results7 * labor_per_sqm config\<rparr>;
          roof_material_est = roofArea * roof_price_per_sqm config;
          results9 = results8\<lparr>material_cost := material_cost results8 + roof_material_est\<rparr>
      in results9\<lparr>total_cost := of_int (round (material_cost results9 + labor_cost results9))\<rparr>)"

section \<open>The design state and its operations\<close>

text \<open>
  The component \<open>AdvancedHouseBuilder\<close> keeps the floor plan and the editing context in
  React state. The handlers below read that state and replace it; the embedding passes the
  state explicitly, each handler taking the state it sees and returning the next one.
  \<open>generateId()\<close> draws a random identifier: the identifier is an argument (\<open>new_id\<close>).
  \<open>alert\<close> and \<open>console.log\<close> are not part of the state and are left out.
\<close>

record DesignState =
  floorPlan :: FloorPlan
  currentFloor :: int
  selectedWallId :: "string option"
  wallHeight :: real
  wallThickness :: real
  wallMaterial :: string
  wallColor :: string

definition initialFloorPlan :: FloorPlan where
  "initialFloorPlan =
     \<lparr>fp_walls = [], totalArea = 0,
      plotBounds = \<lparr>width = 20, depth = 10\<rparr>,
      floors = [\<lparr>floor_id = ''1'', level = 1, floor_height = 3, walls = [], beams = [],
                 floor_color = ''#d1d5db'', floor_texture = Concrete\<rparr>],
      staircases = [], roofStyle = Flat, roofColor = ''#8B4513'',
      roofSlopeDirection = North\<rparr>"

definition initialState :: DesignState where
  "initialState =
     \<lparr>floorPlan = initialFloorPlan, currentFloor = 1, selectedWallId = None,
      wallHeight = 3, wallThickness = 15 / 100, wallMaterial = ''concrete'',
      wallColor = ''#d1d5db''\<rparr>"

subsection \<open>Plot resize\<close>

definition maxPlotArea :: real where
  "maxPlotArea = 200"

definition currentPlotArea :: "DesignState \<Rightarrow> real" where
  \<comment> \<open>\<^verbatim>\<open>floorPlan.plotBounds.width * floorPlan.plotBounds.depth\<close>\<close>
  "currentPlotArea s = width (plotBounds (floorPlan s)) * depth (plotBounds (floorPlan s))"

datatype dimension = DimWidth | DimDepth

definition resizedBounds :: "dimension \<Rightarrow> real \<Rightarrow> PlotBounds \<Rightarrow> PlotBounds" where
  \<comment> \<open>\<^verbatim>\<open>{ ...floorPlan.plotBounds, [dimension]: value }\<close>\<close>
  "resizedBounds dimension v b =
     (case dimension of DimWidth \<Rightarrow> b\<lparr>width := v\<rparr> | DimDepth \<Rightarrow> b\<lparr>depth := v\<rparr>)"

definition handlePlotResize :: "dimension \<Rightarrow> real \<Rightarrow> DesignState \<Rightarrow> DesignState" where
  "handlePlotResize dimension v s =
     (let newBounds = resizedBounds dimension v (plotBounds (floorPlan s))
      in if width newBounds * depth newBounds \<le> maxPlotArea
         then s\<lparr>floorPlan := (floorPlan s)\<lparr>plotBounds := newBounds\<rparr>\<rparr>
         else s)"

subsection \<open>Wall placement\<close>

text \<open>
  The footprint has the fields of \<open>Bounds\<close> above.
  \<open>Math.min(...xs)\<close> and \<open>Math.max(...xs)\<close> are taken on a list the source has just checked
  to be non-empty; the model folds from the first element.
\<close>

definition getFloor1Footprint :: "FloorPlan \<Rightarrow> Bounds option" where
  "getFloor1Footprint fp =
     (case find (\<lambda>f. level f = 1) (floors fp) of
        None \<Rightarrow> None
      | Some floor1 \<Rightarrow>
          if walls floor1 = [] then None
          else
            (let xs = concat (map (\<lambda>wall. [p_x (wall_start wall), p_x (wall_end wall)]) (walls floor1));
                 zs = concat (map (\<lambda>wall. [p_z (wall_start wall), p_z (wall_end wall)]) (walls floor1))
             in case (xs, zs) of
                  (x0 # xs', z0 # zs') \<Rightarrow>
                    Some \<lparr>minX = fold min xs' x0, maxX = fold max xs' x0,
                          minZ = fold min zs' z0, maxZ = fold max zs' z0\<rparr>
                | _ \<Rightarrow> None))"

definition withinPlot :: "PlotBounds \<Rightarrow> Point2D \<Rightarrow> bool" where
  "withinPlot b point =
     (let halfWidth = width b / 2; halfDepth = depth b / 2
      in p_x point \<ge> - halfWidth \<and> p_x point \<le> halfWidth
         \<and> p_z point \<ge> - halfDepth \<and> p_z point \<le> halfDepth)"

definition withinFootprint :: "Bounds \<Rightarrow> Point2D \<Rightarrow> bool" where
  "withinFootprint floor1Footprint point =
     (p_x point \<ge> minX floor1Footprint \<and> p_x point \<le> maxX floor1Footprint
      \<and> p_z point \<ge> minZ floor1Footprint \<and> p_z point \<le> maxZ floor1Footprint)"

text \<open>
  The plot rectangle \<open>[-width/2, width/2] \<times> [-depth/2, depth/2]\<close>, written out as the
  specification words it, to compare with the test \<open>withinPlot\<close> of the source.
\<close>

definition inPlotRectangle :: "PlotBounds \<Rightarrow> Point2D \<Rightarrow> bool" where
  "inPlotRectangle b p =
     (- (width b / 2) \<le> p_x p \<and> p_x p \<le> width b / 2
      \<and> - (depth b / 2) \<le> p_z p \<and> p_z p \<le> depth b / 2)"

definition isPointWithinBounds :: "DesignState \<Rightarrow> Point2D \<Rightarrow> bool" where
  "isPointWithinBounds s point =
     (if currentFloor s > 1 then
        (case getFloor1Footprint (floorPlan s) of
           Some floor1Footprint \<Rightarrow>
             withinPlot (plotBounds (floorPlan s)) point \<and> withinFootprint floor1Footprint point
         | None \<Rightarrow> False)
      else withinPlot (plotBounds (floorPlan s)) point)"

definition addWall :: "Point2D \<Rightarrow> Point2D \<Rightarrow> int \<Rightarrow> string \<Rightarrow> DesignState \<Rightarrow> DesignState" where
  "addWall start end_pt floorLevel new_id s =
     (if \<not> isPointWithinBounds s start \<or> \<not> isPointWithinBounds s end_pt then s
      else
        (let newWall = \<lparr>wall_id = new_id, wall_start = start, wall_end = end_pt,
                         wall_height = wallHeight s, wall_thickness = wallThickness s,
                         windows = [], doors = [], wall_material = wallMaterial s,
                         wall_color = wallColor s, wallType = Solid\<rparr>
         in s\<lparr>floorPlan := (floorPlan s)\<lparr>floors :=
               map (\<lambda>floor. if level floor = floorLevel
                             then floor\<lparr>walls := walls floor @ [newWall]\<rparr> else floor)
                   (floors (floorPlan s))\<rparr>\<rparr>))"

subsection \<open>Windows and doors\<close>

definition clampPosition :: "real \<Rightarrow> real" where
  \<comment> \<open>\<^verbatim>\<open>Math.max(0.1, Math.min(0.9, newPosition))\<close>\<close>
  "clampPosition newPosition = max (1 / 10) (min (9 / 10) newPosition)"

definition updateWalls :: "string \<Rightarrow> int \<Rightarrow> (Wall \<Rightarrow> Wall) \<Rightarrow> DesignState \<Rightarrow> DesignState" where
  \<comment> \<open>the nested \<open>floors.map\<close> / \<open>walls.map\<close> shared by the four handlers below\<close>
  "updateWalls wallId floorLevel f s =
     s\<lparr>floorPlan := (floorPlan s)\<lparr>floors :=
        map (\<lambda>floor. if level floor = floorLevel
                      then floor\<lparr>walls := map (\<lambda>wall. if wall_id wall = wallId then f wall else wall)
                                               (walls floor)\<rparr>
                      else floor)
            (floors (floorPlan s))\<rparr>\<rparr>"

definition updateWindowPosition :: "string \<Rightarrow> string \<Rightarrow> real \<Rightarrow> int \<Rightarrow> DesignState \<Rightarrow> DesignState" where
  "updateWindowPosition wallId windowId newPosition floorLevel s =
     (let clampedPosition = clampPosition newPosition
      in updateWalls wallId floorLevel
           (\<lambda>wall. wall\<lparr>windows :=
              map (\<lambda>window. if win_id window = windowId
                             then window\<lparr>win_position := clampedPosition\<rparr> else window)
                  (windows wall)\<rparr>) s)"

definition updateDoorPosition :: "string \<Rightarrow> string \<Rightarrow> real \<Rightarrow> int \<Rightarrow> DesignState \<Rightarrow> DesignState" where
  "updateDoorPosition wallId doorId newPosition floorLevel s =
     (let clampedPosition = clampPosition newPosition
      in updateWalls wallId floorLevel
           (\<lambda>wall. wall\<lparr>doors :=
              map (\<lambda>door. if door_id door = doorId
                           then door\<lparr>door_position := clampedPosition\<rparr> else door)
                  (doors wall)\<rparr>) s)"

definition newWindow :: "string \<Rightarrow> Window" where
  "newWindow new_id =
     \<lparr>win_id = new_id, win_position = 5 / 10, win_width = 12 / 10, win_height = 1,
      win_style = Rectangular, win_sillHeight = 9 / 10, win_color = ''#8B4513''\<rparr>"

definition newDoor :: "string \<Rightarrow> Door" where
  "newDoor new_id =
     \<lparr>door_id = new_id, door_position = 5 / 10, door_width = 9 / 10, door_height = 21 / 10,
      door_style = Single, door_color = ''#8B4513''\<rparr>"

definition addWindow :: "string \<Rightarrow> int \<Rightarrow> string \<Rightarrow> DesignState \<Rightarrow> DesignState" where
  "addWindow wallId floorLevel new_id s =
     updateWalls wallId floorLevel (\<lambda>wall. wall\<lparr>windows := windows wall @ [newWindow new_id]\<rparr>) s"

definition addDoor :: "string \<Rightarrow> int \<Rightarrow> string \<Rightarrow> DesignState \<Rightarrow> DesignState" where
  "addDoor wallId floorLevel new_id s =
     updateWalls wallId floorLevel (\<lambda>wall. wall\<lparr>doors := doors wall @ [newDoor new_id]\<rparr>) s"



subsection \<open>Floors\<close>

definition addFloor :: "string \<Rightarrow> DesignState \<Rightarrow> DesignState" where
  "addFloor new_id s =
     (if length (floors (floorPlan s)) \<ge> 2 then s
      else
        (let newFloor = \<lparr>floor_id = new_id, level = int (length (floors (floorPlan s))) + 1,
                          floor_height = 3, walls = [], beams = [],
                          floor_color = ''#d1d5db'', floor_texture = Concrete\<rparr>
         in s\<lparr>floorPlan := (floorPlan s)\<lparr>floors := floors (floorPlan s) @ [newFloor]\<rparr>,
              currentFloor := level newFloor\<rparr>))"

definition renumber :: "Floor list \<Rightarrow> Floor list" where
  \<comment> \<open>\<^verbatim>\<open>.map((floor, index) => ({ ...floor, level: index + 1 }))\<close>\<close>
  "renumber fs = map (\<lambda>(index, floor). floor\<lparr>level := int index + 1\<rparr>) (enumerate 0 fs)"

definition removeFloor :: "int \<Rightarrow> DesignState \<Rightarrow> DesignState" where
  "removeFloor floorLevel s =
     (if length (floors (floorPlan s)) \<le> 1 then s
      else if floorLevel = 1 then s
      else
        s\<lparr>floorPlan := (floorPlan s)\<lparr>floors :=
             renumber (filter (\<lambda>floor. level floor \<noteq> floorLevel) (floors (floorPlan s)))\<rparr>,
          currentFloor :=
            (if currentFloor s = floorLevel then 1
             else if currentFloor s > floorLevel then currentFloor s - 1
             else currentFloor s),
          selectedWallId := None\<rparr>)"

text \<open>
  The levels of a floor list are consecutive when they read \<open>1, 2, \<dots>, n\<close> in list order;
  \<open>floorsInv\<close> is the invariant of the floor list kept by the handlers.
\<close>

definition consecutiveLevels :: "Floor list \<Rightarrow> bool" where
  "consecutiveLevels fs = (map level fs = map (\<lambda>i. int i + 1) [0..<length fs])"

definition floorsInv :: "DesignState \<Rightarrow> bool" where
  "floorsInv s =
     (1 \<le> length (floors (floorPlan s)) \<and> length (floors (floorPlan s)) \<le> 2
      \<and> consecutiveLevels (floors (floorPlan s)))"

definition setCurrentFloor :: "int \<Rightarrow> DesignState \<Rightarrow> DesignState" where
  \<comment> \<open>the state setter behind the floor buttons, \<^verbatim>\<open>onClick={() => setCurrentFloor(floor.level)}\<close>\<close>
  "setCurrentFloor lvl s = s\<lparr>currentFloor := lvl\<rparr>"

subsection \<open>Sequences of operations\<close>

datatype action =
    PlotResize dimension real
  | AddWall Point2D Point2D int string
  | UpdateWindowPosition string string real int
  | UpdateDoorPosition string string real int
  | AddWindow string int string
  | AddDoor string int string
  | AddFloor string
  | RemoveFloor int
  | SetCurrentFloor int

fun step :: "action \<Rightarrow> DesignState \<Rightarrow> DesignState" where
  "step (PlotResize dimension v) s = handlePlotResize dimension v s"
| "step (AddWall start end_pt floorLevel new_id) s = addWall start end_pt floorLevel new_id s"
| "step (UpdateWindowPosition wallId windowId newPosition floorLevel) s =
     updateWindowPosition wallId windowId newPosition floorLevel s"
| "step (UpdateDoorPosition wallId doorId newPosition floorLevel) s =
     updateDoorPosition wallId doorId newPosition floorLevel s"
| "step (AddWindow wallId floorLevel new_id) s = addWindow wallId floorLevel new_id s"
| "step (AddDoor wallId floorLevel new_id) s = addDoor wallId floorLevel new_id s"
| "step (AddFloor new_id) s = addFloor new_id s"
| "step (RemoveFloor floorLevel) s = removeFloor floorLevel s"
| "step (SetCurrentFloor lvl) s = setCurrentFloor lvl s"

definition run :: "action list \<Rightarrow> DesignState \<Rightarrow> DesignState" where
  "run acts s = foldl (\<lambda>s' a. step a s') s acts"





section \<open>Properties\<close>

subsection \<open>Shoelace formula\<close>

lemma polygon_loop_sum:
  "i \<le> length points \<Longrightarrow>
   polygon_loop points i area =
     area + (\<Sum>k = i..<length points.
        p_x (points ! k) * p_z (points ! ((k + 1) mod length points))
        - p_x (points ! ((k + 1) mod length points)) * p_z (points ! k))"
proof (induction points i area rule: polygon_loop.induct)
  case (1 points i area)
  show ?case
  proof (cases "i < length points")
    case True
    then have le: "i + 1 \<le> length points" by simp
    have step: "polygon_loop points i area =
        polygon_loop points (i + 1)
          (area + p_x (points ! i) * p_z (points ! ((i + 1) mod length points))
             - p_x (points ! ((i + 1) mod length points)) * p_z (points ! i))"
      using True by (subst polygon_loop.simps) (simp add: Let_def)
    show ?thesis
      unfolding step
      using "1.IH"[OF True refl refl refl le] True
      by (simp add: sum.atLeast_Suc_lessThan)
  next
    case False
    with "1.prems" have "i = length points" by simp
    then show ?thesis by (subst polygon_loop.simps) simp
  qed
qed

text \<open>
  Claim C5. \<open>calculatePolygonArea\<close> implements the shoelace formula: for a list of at least
  three vertices it returns half the absolute value of the determinant sum
  \<open>\<Sum>i. x\<^sub>i * z\<^sub>i\<^sub>+\<^sub>1 - x\<^sub>i\<^sub>+\<^sub>1 * z\<^sub>i\<close> with cyclic indices, and for a list of fewer than three
  vertices it returns \<open>0\<close>. The two copies of the function in the sources are the same text.
\<close>

theorem calculatePolygonArea_shoelace:
  "(3 \<le> length points \<longrightarrow> calculatePolygonArea points = \<bar>shoelace_sum points\<bar> / 2)
   \<and> (length points < 3 \<longrightarrow> calculatePolygonArea points = 0)"
  using polygon_loop_sum[of 0 points 0]
  by (simp add: calculatePolygonArea_def shoelace_sum_def)

text \<open>The right triangle with legs \<open>4\<close> and \<open>3\<close> has area \<open>6\<close>; two points enclose nothing.\<close>

theorem calculatePolygonArea_shoelace_witness:
  "calculatePolygonArea [\<lparr>p_x = 0, p_z = 0\<rparr>, \<lparr>p_x = 4, p_z = 0\<rparr>, \<lparr>p_x = 0, p_z = 3\<rparr>] = 6
   \<and> calculatePolygonArea [\<lparr>p_x = 0, p_z = 0\<rparr>, \<lparr>p_x = 4, p_z = 0\<rparr>] = 0"
  using calculatePolygonArea_shoelace[of "[\<lparr>p_x = 0, p_z = 0\<rparr>, \<lparr>p_x = 4, p_z = 0\<rparr>, \<lparr>p_x = 0, p_z = 3\<rparr>]"]
        calculatePolygonArea_shoelace[of "[\<lparr>p_x = 0, p_z = 0\<rparr>, \<lparr>p_x = 4, p_z = 0\<rparr>]"]
  by (simp add: shoelace_sum_def)

subsection \<open>Grid snapping\<close>

lemma findNearestPoint_endpoint:
  "findNearestPoint point ws threshold = Some q \<Longrightarrow>
   \<exists>w \<in> set ws. q = wall_start w \<or> q = wall_end w"
  by (induction ws) (auto simp: Let_def split: if_splits)

text \<open>
  Claim C10. \<open>snapToGrid\<close> lands on the grid and is idempotent: for every value \<open>v\<close> and every
  positive grid size \<open>g\<close>, \<open>snapToGrid v g\<close> is an integer multiple of \<open>g\<close> and snapping it
  again changes nothing. Hence the point the wall tool takes at a click lies on the
  \<open>0.5\<close> grid in both coordinates, unless it is an endpoint of an existing wall.
\<close>

theorem snapToGrid_idempotent:
  "0 < g \<Longrightarrow>
   (\<exists>k::int. snapToGrid v g = of_int k * g)
   \<and> snapToGrid (snapToGrid v g) g = snapToGrid v g
   \<and> ((\<exists>kx kz :: int. p_x (wallToolPoint c ws) = of_int kx * (1 / 2)
                       \<and> p_z (wallToolPoint c ws) = of_int kz * (1 / 2))
        \<or> (\<exists>w \<in> set ws. wallToolPoint c ws = wall_start w \<or> wallToolPoint c ws = wall_end w))"
proof (intro conjI)
  assume g: "0 < g"
  show "\<exists>k::int. snapToGrid v g = of_int k * g"
    unfolding snapToGrid_def by blast
  from g show "snapToGrid (snapToGrid v g) g = snapToGrid v g"
    by (simp add: snapToGrid_def)
  show "(\<exists>kx kz :: int. p_x (wallToolPoint c ws) = of_int kx * (1 / 2)
                       \<and> p_z (wallToolPoint c ws) = of_int kz * (1 / 2))
        \<or> (\<exists>w \<in> set ws. wallToolPoint c ws = wall_start w \<or> wallToolPoint c ws = wall_end w)"
  proof (cases "findNearestPoint (snappedPoint c) ws 1")
    case None
    then have "wallToolPoint c ws = snappedPoint c" by (simp add: wallToolPoint_def)
    then have "\<exists>kx kz :: int. p_x (wallToolPoint c ws) = of_int kx * (1 / 2)
                       \<and> p_z (wallToolPoint c ws) = of_int kz * (1 / 2)"
      unfolding snappedPoint_def snapToGrid_def Let_def by auto
    then show ?thesis ..
  next
    case (Some q)
    then have "wallToolPoint c ws = q" by (simp add: wallToolPoint_def)
    with findNearestPoint_endpoint[OF Some] show ?thesis by simp
  qed
qed

text \<open>
  On the \<open>0.5\<close> grid the value \<open>1.3\<close> snaps to \<open>1.5\<close> and stays there; a click at the canvas
  pixel \<open>(277, 288)\<close> on an empty plan is the world point \<open>(1.35, 0.6)\<close> and gives \<open>(1.5, 0.5)\<close>.
\<close>

theorem snapToGrid_idempotent_witness:
  "(0::real) < 1 / 2
   \<and> snapToGrid (13 / 10) (1 / 2) = 3 / 2
   \<and> snapToGrid (snapToGrid (13 / 10) (1 / 2)) (1 / 2) = 3 / 2
   \<and> wallToolPoint \<lparr>p_x = 277, p_z = 288\<rparr> [] = \<lparr>p_x = 3 / 2, p_z = 1 / 2\<rparr>"
  using snapToGrid_idempotent[of "1 / 2" "13 / 10" "\<lparr>p_x = 277, p_z = 288\<rparr>" "[]"]
  by (simp add: snapToGrid_def round_def wallToolPoint_def snappedPoint_def canvasToWorld_def)

subsection \<open>Sequences of operations and the plot-area cap\<close>

lemma run_Nil: "run [] s = s"
  by (simp add: run_def)

lemma run_snoc: "run (acts @ [a]) s = step a (run acts s)"
  by (simp add: run_def)

lemma run_Cons: "run (a # acts) s = run acts (step a s)"
  by (simp add: run_def)

lemma run_invariant:
  assumes "P s" and "\<And>a s'. P s' \<Longrightarrow> P (step a s')"
  shows "P (run acts s)"
  using assms(1)
proof (induction acts arbitrary: s)
  case Nil
  then show ?case by (simp add: run_Nil)
next
  case (Cons a acts)
  from Cons.prems have "P (step a s)" by (rule assms(2))
  then show ?case unfolding run_Cons by (rule Cons.IH)
qed

lemma updateWalls_plotBounds: "plotBounds (floorPlan (updateWalls wallId floorLevel f s)) = plotBounds (floorPlan s)"
  by (simp add: updateWalls_def)

lemma handlePlotResize_cap:
  "currentPlotArea s \<le> maxPlotArea \<Longrightarrow> currentPlotArea (handlePlotResize dimension v s) \<le> maxPlotArea"
  by (simp add: handlePlotResize_def currentPlotArea_def Let_def)

lemma step_plotArea:
  "currentPlotArea s \<le> maxPlotArea \<Longrightarrow> currentPlotArea (step a s) \<le> maxPlotArea"
proof (cases a)
  case (PlotResize dimension v)
  assume "currentPlotArea s \<le> maxPlotArea"
  then show ?thesis unfolding PlotResize step.simps by (rule handlePlotResize_cap)
next
  case (AddWall start end_pt floorLevel new_id)
  assume "currentPlotArea s \<le> maxPlotArea"
  then show ?thesis unfolding AddWall by (simp add: currentPlotArea_def addWall_def Let_def)
next
  case (UpdateWindowPosition wallId windowId newPosition floorLevel)
  assume "currentPlotArea s \<le> maxPlotArea"
  then show ?thesis unfolding UpdateWindowPosition
    by (simp add: currentPlotArea_def updateWindowPosition_def updateWalls_plotBounds Let_def)
next
  case (UpdateDoorPosition wallId doorId newPosition floorLevel)
  assume "currentPlotArea s \<le> maxPlotArea"
  then show ?thesis unfolding UpdateDoorPosition
    by (simp add: currentPlotArea_def updateDoorPosition_def updateWalls_plotBounds Let_def)
next
  case (AddWindow wallId floorLevel new_id)
  assume "currentPlotArea s \<le> maxPlotArea"
  then show ?thesis unfolding AddWindow
    by (simp add: currentPlotArea_def addWindow_def updateWalls_plotBounds)
next
  case (AddDoor wallId floorLevel new_id)
  assume "currentPlotArea s \<le> maxPlotArea"
  then show ?thesis unfolding AddDoor
    by (simp add: currentPlotArea_def addDoor_def updateWalls_plotBounds)
next
  case (AddFloor new_id)
  assume "currentPlotArea s \<le> maxPlotArea"
  then show ?thesis unfolding AddFloor by (simp add: currentPlotArea_def addFloor_def Let_def)
next
  case (RemoveFloor floorLevel)
  assume "currentPlotArea s \<le> maxPlotArea"
  then show ?thesis unfolding RemoveFloor by (simp add: currentPlotArea_def removeFloor_def)
next
  case (SetCurrentFloor lvl)
  assume "currentPlotArea s \<le> maxPlotArea"
  then show ?thesis unfolding SetCurrentFloor by (simp add: currentPlotArea_def setCurrentFloor_def)
qed

lemma initialState_plotArea: "currentPlotArea initialState = 200"
  by (simp add: currentPlotArea_def initialState_def initialFloorPlan_def)

text \<open>
  Claim C3. The plot-area cap is an invariant of the design state: from the initial
  \<open>20 \<times> 10\<close> plot, after every sequence of operations (plot resizes and all the other
  handlers modelled here) the product \<open>width * depth\<close> of the plot bounds is at most the
  cap of \<open>200\<close>; and a resize whose resulting product would exceed the cap leaves the
  state, hence the plot bounds, unchanged.
\<close>

theorem plot_area_cap:
  "currentPlotArea (run acts initialState) \<le> maxPlotArea
   \<and> (maxPlotArea < width (resizedBounds dimension v (plotBounds (floorPlan s)))
                      * depth (resizedBounds dimension v (plotBounds (floorPlan s)))
        \<longrightarrow> handlePlotResize dimension v s = s)"
proof
  have "currentPlotArea initialState \<le> maxPlotArea"
    by (simp add: initialState_plotArea maxPlotArea_def)
  then show "currentPlotArea (run acts initialState) \<le> maxPlotArea"
    by (rule run_invariant) (rule step_plotArea)
  show "maxPlotArea < width (resizedBounds dimension v (plotBounds (floorPlan s)))
                      * depth (resizedBounds dimension v (plotBounds (floorPlan s)))
        \<longrightarrow> handlePlotResize dimension v s = s"
    by (simp add: handlePlotResize_def Let_def)
qed

text \<open>
  Depth \<open>5\<close> is accepted, then width \<open>40\<close> (area \<open>200\<close>), then width \<open>50\<close> is refused; on
  the initial plot width \<open>30\<close> would give \<open>300\<close> and is refused.
\<close>

theorem plot_area_cap_witness:
  "currentPlotArea (run [PlotResize DimDepth 5, PlotResize DimWidth 40, PlotResize DimWidth 50] initialState) = 200
   \<and> currentPlotArea (run [PlotResize DimDepth 5, PlotResize DimWidth 40, PlotResize DimWidth 50] initialState) \<le> maxPlotArea
   \<and> maxPlotArea < width (resizedBounds DimWidth 30 (plotBounds (floorPlan initialState)))
                      * depth (resizedBounds DimWidth 30 (plotBounds (floorPlan initialState)))
   \<and> handlePlotResize DimWidth 30 initialState = initialState"
  using plot_area_cap[of "[PlotResize DimDepth 5, PlotResize DimWidth 40, PlotResize DimWidth 50]"
                         DimWidth 30 initialState]
  by (simp add: run_def handlePlotResize_def resizedBounds_def currentPlotArea_def maxPlotArea_def
                initialState_def initialFloorPlan_def)

subsection \<open>Wall placement and the plot bounds\<close>

lemma isPointWithinBounds_plot:
  "isPointWithinBounds s point \<Longrightarrow> inPlotRectangle (plotBounds (floorPlan s)) point"
  by (auto simp: isPointWithinBounds_def withinPlot_def inPlotRectangle_def Let_def
           split: if_splits option.splits)

text \<open>
  Claim C6. Wall placement is guarded by the plot bounds and is atomic on rejection:
  \<open>addWall\<close> changes the state only when both points lie in the plot rectangle; when
  either point lies outside, the whole state (floors, walls, staircases, bounds) is
  returned unchanged.
\<close>

theorem addWall_plot_guard:
  "(\<not> inPlotRectangle (plotBounds (floorPlan s)) start
      \<or> \<not> inPlotRectangle (plotBounds (floorPlan s)) end_pt
      \<longrightarrow> addWall start end_pt floorLevel new_id s = s)
   \<and> (addWall start end_pt floorLevel new_id s \<noteq> s
      \<longrightarrow> inPlotRectangle (plotBounds (floorPlan s)) start
          \<and> inPlotRectangle (plotBounds (floorPlan s)) end_pt)"
proof -
  have rej: "addWall start end_pt floorLevel new_id s = s"
    if "\<not> inPlotRectangle (plotBounds (floorPlan s)) start
        \<or> \<not> inPlotRectangle (plotBounds (floorPlan s)) end_pt"
  proof -
    from that have "\<not> isPointWithinBounds s start \<or> \<not> isPointWithinBounds s end_pt"
      using isPointWithinBounds_plot by blast
    then show ?thesis by (auto simp: addWall_def)
  qed
  then show ?thesis by blast
qed

text \<open>
  On the initial \<open>20 \<times> 10\<close> plot a wall from \<open>(0, 0)\<close> to \<open>(11, 0)\<close> is refused and a wall
  from \<open>(0, 0)\<close> to \<open>(5, 0)\<close> is added to floor 1.
\<close>

theorem addWall_plot_guard_witness:
  "\<not> inPlotRectangle (plotBounds (floorPlan initialState)) \<lparr>p_x = 11, p_z = 0\<rparr>
   \<and> addWall \<lparr>p_x = 0, p_z = 0\<rparr> \<lparr>p_x = 11, p_z = 0\<rparr> 1 ''w1'' initialState = initialState
   \<and> addWall \<lparr>p_x = 0, p_z = 0\<rparr> \<lparr>p_x = 5, p_z = 0\<rparr> 1 ''w1'' initialState \<noteq> initialState
   \<and> inPlotRectangle (plotBounds (floorPlan initialState)) \<lparr>p_x = 0, p_z = 0\<rparr>
   \<and> inPlotRectangle (plotBounds (floorPlan initialState)) \<lparr>p_x = 5, p_z = 0\<rparr>"
proof -
  have out: "\<not> inPlotRectangle (plotBounds (floorPlan initialState)) \<lparr>p_x = 11, p_z = 0\<rparr>"
    by (simp add: inPlotRectangle_def initialState_def initialFloorPlan_def)
  have "map walls (floors (floorPlan (addWall \<lparr>p_x = 0, p_z = 0\<rparr> \<lparr>p_x = 5, p_z = 0\<rparr> 1 ''w1'' initialState)))
        \<noteq> map walls (floors (floorPlan initialState))"
    by (simp add: addWall_def isPointWithinBounds_def withinPlot_def Let_def
                  initialState_def initialFloorPlan_def)
  then have added: "addWall \<lparr>p_x = 0, p_z = 0\<rparr> \<lparr>p_x = 5, p_z = 0\<rparr> 1 ''w1'' initialState \<noteq> initialState"
    by auto
  from out added
       addWall_plot_guard[of initialState "\<lparr>p_x = 0, p_z = 0\<rparr>" "\<lparr>p_x = 11, p_z = 0\<rparr>" 1 "''w1''"]
       addWall_plot_guard[of initialState "\<lparr>p_x = 0, p_z = 0\<rparr>" "\<lparr>p_x = 5, p_z = 0\<rparr>" 1 "''w1''"]
  show ?thesis by blast
qed

subsection \<open>Window and door positions\<close>

















subsection \<open>Floors\<close>

lemma renumber_length: "length (renumber fs) = length fs"
  by (simp add: renumber_def)

lemma renumber_levels: "consecutiveLevels (renumber fs)"
proof -
  have "map level (map (\<lambda>(index, floor). floor\<lparr>level := int index + 1\<rparr>) (enumerate n fs))
        = map (\<lambda>i. int i + 1) [n..<n + length fs]" for n
  proof (induction fs arbitrary: n)
    case Nil
    show ?case by simp
  next
    case (Cons f fs)
    have "[n..<n + length (f # fs)] = n # [Suc n..<Suc n + length fs]"
      by (subst upt_rec) simp
    with Cons.IH[of "Suc n"] show ?case by simp
  qed
  from this[of 0] show ?thesis
    by (simp add: consecutiveLevels_def renumber_def)
qed

lemma floorsInv_cases:
  assumes "floorsInv s"
  obtains f1 where "floors (floorPlan s) = [f1]" "level f1 = 1"
  | f1 f2 where "floors (floorPlan s) = [f1, f2]" "level f1 = 1" "level f2 = 2"
proof -
  from assms have len: "length (floors (floorPlan s)) = 1 \<or> length (floors (floorPlan s)) = 2"
    and lv: "map level (floors (floorPlan s)) = map (\<lambda>i. int i + 1) [0..<length (floors (floorPlan s))]"
    by (auto simp: floorsInv_def consecutiveLevels_def)
  from len show thesis
  proof
    assume "length (floors (floorPlan s)) = 1"
    then obtain f1 where fs: "floors (floorPlan s) = [f1]"
      by (cases "floors (floorPlan s)") auto
    with lv have "level f1 = 1" by simp
    with fs show thesis by (rule that(1))
  next
    assume "length (floors (floorPlan s)) = 2"
    then obtain f1 f2 where fs: "floors (floorPlan s) = [f1, f2]"
      by (cases "floors (floorPlan s)"; cases "tl (floors (floorPlan s))") auto
    with lv have "level f1 = 1" "level f2 = 2" by (simp_all add: upt_rec)
    with fs show thesis by (rule that(2))
  qed
qed

lemma level_update_same: "level f = l \<Longrightarrow> f\<lparr>level := l\<rparr> = f"
  by (cases f) simp

lemma removeFloor_reachable:
  assumes "floorsInv s"
  shows "floors (floorPlan (removeFloor floorLevel s)) \<noteq> []
         \<and> hd (floors (floorPlan (removeFloor floorLevel s))) = hd (floors (floorPlan s))
         \<and> level (hd (floors (floorPlan s))) = 1
         \<and> floorsInv (removeFloor floorLevel s)"
  using assms
proof (cases rule: floorsInv_cases)
  case (1 f1)
  then have "removeFloor floorLevel s = s" by (simp add: removeFloor_def)
  with 1 assms show ?thesis by simp
next
  case (2 f1 f2)
  show ?thesis
  proof (cases "floorLevel = 1")
    case True
    then have "removeFloor floorLevel s = s" by (simp add: removeFloor_def)
    with 2 assms show ?thesis by simp
  next
    case False
    with 2 have fl: "floors (floorPlan (removeFloor floorLevel s))
                 = (if floorLevel = 2 then [f1] else [f1, f2])"
      by (simp add: removeFloor_def renumber_def level_update_same)
    with 2 show ?thesis
      by (simp add: floorsInv_def consecutiveLevels_def upt_rec)
  qed
qed

lemma map_floor_levels:
  "map level (map (\<lambda>floor. if P floor then floor\<lparr>walls := g floor\<rparr> else floor) fs) = map level fs"
  by (induction fs) simp_all

lemma floorsInv_floors_eq:
  "map level (floors (floorPlan s')) = map level (floors (floorPlan s)) \<Longrightarrow> floorsInv s \<Longrightarrow> floorsInv s'"
proof -
  assume eq: "map level (floors (floorPlan s')) = map level (floors (floorPlan s))" and inv: "floorsInv s"
  from eq have "length (floors (floorPlan s')) = length (floors (floorPlan s))"
    using length_map by metis
  with eq inv show "floorsInv s'"
    by (simp add: floorsInv_def consecutiveLevels_def)
qed

lemma updateWalls_levels:
  "map level (floors (floorPlan (updateWalls wallId floorLevel f s))) = map level (floors (floorPlan s))"
  by (simp add: updateWalls_def map_floor_levels)

lemma addWall_levels:
  "map level (floors (floorPlan (addWall start end_pt floorLevel new_id s))) = map level (floors (floorPlan s))"
  by (simp add: addWall_def Let_def map_floor_levels)

lemma addFloor_inv: "floorsInv s \<Longrightarrow> floorsInv (addFloor new_id s)"
proof -
  assume inv: "floorsInv s"
  then show ?thesis
  proof (cases rule: floorsInv_cases)
    case (1 f1)
    then show ?thesis
      by (simp add: addFloor_def floorsInv_def consecutiveLevels_def Let_def upt_rec)
  next
    case (2 f1 f2)
    then have "addFloor new_id s = s" by (simp add: addFloor_def)
    with inv show ?thesis by simp
  qed
qed

lemma step_floorsInv: "floorsInv s \<Longrightarrow> floorsInv (step a s)"
proof (cases a)
  case (PlotResize dimension v)
  assume "floorsInv s"
  then show ?thesis unfolding PlotResize
    by (auto simp: handlePlotResize_def Let_def intro: floorsInv_floors_eq[rotated])
next
  case (AddWall start end_pt floorLevel new_id)
  assume "floorsInv s"
  with addWall_levels show ?thesis unfolding AddWall step.simps by (rule floorsInv_floors_eq)
next
  case (UpdateWindowPosition wallId windowId newPosition floorLevel)
  assume "floorsInv s"
  with updateWalls_levels show ?thesis unfolding UpdateWindowPosition step.simps updateWindowPosition_def Let_def
    by (rule floorsInv_floors_eq)
next
  case (UpdateDoorPosition wallId doorId newPosition floorLevel)
  assume "floorsInv s"
  with updateWalls_levels show ?thesis unfolding UpdateDoorPosition step.simps updateDoorPosition_def Let_def
    by (rule floorsInv_floors_eq)
next
  case (AddWindow wallId floorLevel new_id)
  assume "floorsInv s"
  with updateWalls_levels show ?thesis unfolding AddWindow step.simps addWindow_def
    by (rule floorsInv_floors_eq)
next
  case (AddDoor wallId floorLevel new_id)
  assume "floorsInv s"
  with updateWalls_levels show ?thesis unfolding AddDoor step.simps addDoor_def
    by (rule floorsInv_floors_eq)
next
  case (AddFloor new_id)
  assume "floorsInv s"
  then show ?thesis unfolding AddFloor step.simps by (rule addFloor_inv)
next
  case (RemoveFloor floorLevel)
  assume "floorsInv s"
  then show ?thesis unfolding RemoveFloor step.simps using removeFloor_reachable by blast
next
  case (SetCurrentFloor lvl)
  assume "floorsInv s"
  then show ?thesis unfolding SetCurrentFloor
    by (auto simp: setCurrentFloor_def intro: floorsInv_floors_eq[rotated])
qed

lemma run_floorsInv: "floorsInv (run acts initialState)"
proof (rule run_invariant)
  show "floorsInv initialState"
    by (simp add: floorsInv_def consecutiveLevels_def initialState_def initialFloorPlan_def)
qed (rule step_floorsInv)

text \<open>
  Claim C8. The design has at most two floors: every state reached from the initial
  single-floor plan has at most \<open>2\<close> floors; \<open>addFloor\<close> returns the state unchanged when
  \<open>2\<close> floors exist; \<open>removeFloor\<close> returns the state unchanged when one floor is left or
  when asked to remove level \<open>1\<close>, and in a reached state it keeps the first floor (the
  floor of level \<open>1\<close>) as it is; after \<open>removeFloor\<close> the levels of the floors are
  \<open>1, \<dots>, n\<close>, as they are after any renumbering.
\<close>

theorem at_most_two_floors:
  "length (floors (floorPlan (run acts initialState))) \<le> 2
   \<and> (2 \<le> length (floors (floorPlan t)) \<longrightarrow> addFloor new_id t = t)
   \<and> (length (floors (floorPlan t)) \<le> 1 \<longrightarrow> removeFloor floorLevel t = t)
   \<and> removeFloor 1 t = t
   \<and> floors (floorPlan (removeFloor floorLevel (run acts initialState))) \<noteq> []
   \<and> hd (floors (floorPlan (removeFloor floorLevel (run acts initialState))))
       = hd (floors (floorPlan (run acts initialState)))
   \<and> level (hd (floors (floorPlan (run acts initialState)))) = 1
   \<and> consecutiveLevels (floors (floorPlan (removeFloor floorLevel (run acts initialState))))
   \<and> consecutiveLevels (renumber (filter (\<lambda>floor. level floor \<noteq> floorLevel) (floors (floorPlan t))))"
proof -
  have inv: "floorsInv (run acts initialState)" by (rule run_floorsInv)
  note r = removeFloor_reachable[OF inv, of floorLevel]
  from inv have "length (floors (floorPlan (run acts initialState))) \<le> 2"
    by (simp add: floorsInv_def)
  moreover have "2 \<le> length (floors (floorPlan t)) \<longrightarrow> addFloor new_id t = t"
    by (simp add: addFloor_def)
  moreover have "length (floors (floorPlan t)) \<le> 1 \<longrightarrow> removeFloor floorLevel t = t"
    by (simp add: removeFloor_def)
  moreover have "removeFloor 1 t = t"
    by (simp add: removeFloor_def)
  moreover from r have "consecutiveLevels (floors (floorPlan (removeFloor floorLevel (run acts initialState))))"
    by (simp add: floorsInv_def)
  ultimately show ?thesis using r renumber_levels by blast
qed


text \<open>
  After one \<open>addFloor\<close> there are two floors and a second \<open>addFloor\<close> changes nothing;
  removing level \<open>2\<close> leaves floor 1 alone, with level \<open>1\<close>.
\<close>

lemma two_floors:
  "floors (floorPlan (run [AddFloor ''a''] initialState)) =
     [\<lparr>floor_id = ''1'', level = 1, floor_height = 3, walls = [], beams = [],
       floor_color = ''#d1d5db'', floor_texture = Concrete\<rparr>,
      \<lparr>floor_id = ''a'', level = 2, floor_height = 3, walls = [], beams = [],
       floor_color = ''#d1d5db'', floor_texture = Concrete\<rparr>]"
  by (simp add: run_def addFloor_def Let_def initialState_def initialFloorPlan_def)

theorem at_most_two_floors_witness:
  "length (floors (floorPlan (run [AddFloor ''a''] initialState))) = 2
   \<and> addFloor ''b'' (run [AddFloor ''a''] initialState) = run [AddFloor ''a''] initialState
   \<and> length (floors (floorPlan initialState)) \<le> 1
   \<and> removeFloor 2 initialState = initialState
   \<and> map level (floors (floorPlan (removeFloor 2 (run [AddFloor ''a''] initialState)))) = [1]
   \<and> hd (floors (floorPlan (removeFloor 2 (run [AddFloor ''a''] initialState))))
       = hd (floors (floorPlan initialState))"
  using at_most_two_floors[where acts = "[AddFloor ''a'']" and t = "run [AddFloor ''a''] initialState"
                             and new_id = "''b''" and floorLevel = 2]
        at_most_two_floors[where acts = "[]" and t = initialState and floorLevel = 2]
        two_floors
  by (simp add: consecutiveLevels_def removeFloor_def renumber_def initialState_def initialFloorPlan_def)

subsection \<open>Material estimate and roof area\<close>

lemma fold_totalWallArea:
  "fold (\<lambda>w results. results\<lparr>totalWallArea := totalWallArea results + wallArea (bw_length w) (bw_height w)\<rparr>) ws r
   = r\<lparr>totalWallArea := totalWallArea r + (\<Sum>w\<leftarrow>ws. bw_length w * bw_height w)\<rparr>"
  by (induction ws arbitrary: r) (simp_all add: wallArea_def add.assoc)

lemma fold_totalPerimeter:
  "fold (\<lambda>w s. s + bw_length w) ws (a::real) = a + (\<Sum>w\<leftarrow>ws. bw_length w)"
  by (induction ws arbitrary: a) (simp_all add: add.assoc)

text \<open>
  Claim C1. \<open>estimateMaterials\<close> is the flat multiply-accumulate model over the rate table:
  the total wall area is the sum of length times height over the walls; the block count is
  the ceiling of that area divided by the block size; the cement bags are the ceiling of the
  area times the bags per square metre; the rebar cost is the sum of the wall lengths times
  \<open>2\<close> times the rebar price; the labour cost is the area times the labour rate; the
  material cost is block cost plus cement cost plus rebar cost plus roof area times roof
  price; and the total cost is the rounding of material cost plus labour cost. It holds for
  every list of walls, every roof area and every rate table with a non-zero block size.
\<close>

theorem estimateMaterials_model:
  assumes "hollowblock_size_sqm config \<noteq> 0"
  shows "totalWallArea (estimateMaterials ws roofArea config) = (\<Sum>w\<leftarrow>ws. bw_length w * bw_height w)
   \<and> hollowblock_count (estimateMaterials ws roofArea config)
       = of_int \<lceil>(\<Sum>w\<leftarrow>ws. bw_length w * bw_height w) / hollowblock_size_sqm config\<rceil>
   \<and> cement_bags (estimateMaterials ws roofArea config)
       = of_int \<lceil>(\<Sum>w\<leftarrow>ws. bw_length w * bw_height w) * cement_bag_per_sqm config\<rceil>
   \<and> rebar_cost (estimateMaterials ws roofArea config)
       = (\<Sum>w\<leftarrow>ws. bw_length w) * 2 * rebar_price_per_kg config
   \<and> labor_cost (estimateMaterials ws roofArea config)
       = (\<Sum>w\<leftarrow>ws. bw_length w * bw_height w) * labor_per_sqm config
   \<and> material_cost (estimateMaterials ws roofArea config)
       = hollowblock_count (estimateMaterials ws roofArea config) * hollowblock_per_piece config
         + cement_bags (estimateMaterials ws roofArea config) * cement_price_per_bag config
         + rebar_cost (estimateMaterials ws roofArea config)
         + roofArea * roof_price_per_sqm config
   \<and> total_cost (estimateMaterials ws roofArea config)
       = of_int (round (material_cost (estimateMaterials ws roofArea config)
                        + labor_cost (estimateMaterials ws roofArea config)))"
  by (simp add: estimateMaterials_def Let_def fold_totalWallArea fold_totalPerimeter)

text \<open>
  The square house of side \<open>10\<close> and height \<open>3\<close> with a roof of \<open>100\<close> square metres, on
  the default rate table.
\<close>

theorem estimateMaterials_model_witness:
  "hollowblock_size_sqm rates \<noteq> 0
   \<and> totalWallArea (estimateMaterials (makeRectangleWalls 10 3 (15 / 100)) 100 rates) = 120
   \<and> hollowblock_count (estimateMaterials (makeRectangleWalls 10 3 (15 / 100)) 100 rates) = 1500
   \<and> cement_bags (estimateMaterials (makeRectangleWalls 10 3 (15 / 100)) 100 rates) = 54
   \<and> rebar_cost (estimateMaterials (makeRectangleWalls 10 3 (15 / 100)) 100 rates) = 6000
   \<and> labor_cost (estimateMaterials (makeRectangleWalls 10 3 (15 / 100)) 100 rates) = 45600
   \<and> material_cost (estimateMaterials (makeRectangleWalls 10 3 (15 / 100)) 100 rates) = 58080
   \<and> total_cost (estimateMaterials (makeRectangleWalls 10 3 (15 / 100)) 100 rates) = 103680"
proof -
  have nz: "hollowblock_size_sqm rates \<noteq> 0" by (simp add: rates_def)
  from estimateMaterials_model[OF nz, of "makeRectangleWalls 10 3 (15 / 100)" 100] nz show ?thesis
    by (simp add: makeRectangleWalls_def Let_def rates_def round_def)
qed

text \<open>
  Claim C2. \<open>roofAreaFromBounds\<close> is the closed-form two-slope formula: for bounds that are
  not \<open>null\<close> it returns
  \<open>(max(0.001, |maxX - minX|) + 2 overhang) * (max(0.001, |maxZ - minZ|) + 2 overhang) / cos(pitch * pi / 180)\<close>,
  which is twice the single-side area \<open>roofRun * depthWithOverhang * slopeFactor\<close>; and it
  returns \<open>0\<close> for \<open>null\<close> bounds. The pitch is one whose cosine is not \<open>0\<close>.
\<close>

theorem roofAreaFromBounds_formula:
  assumes "cos (roofPitch * pi / 180) \<noteq> 0"
  shows "roofAreaFromBounds (Some b) roofPitch overhang
         = (max (1 / 1000) \<bar>maxX b - minX b\<bar> + 2 * overhang)
           * (max (1 / 1000) \<bar>maxZ b - minZ b\<bar> + 2 * overhang)
           / cos (roofPitch * pi / 180)
   \<and> roofAreaFromBounds (Some b) roofPitch overhang
         = 2 * ((max (1 / 1000) \<bar>maxX b - minX b\<bar> + 2 * overhang) / 2
                * (max (1 / 1000) \<bar>maxZ b - minZ b\<bar> + 2 * overhang)
                * (1 / cos (roofPitch * pi / 180)))
   \<and> roofAreaFromBounds None roofPitch overhang = 0"
  by (simp add: roofAreaFromBounds_def Let_def)

text \<open>An \<open>8 \<times> 6\<close> footprint with overhang \<open>1\<close> under a pitch of \<open>60\<close> degrees.\<close>

theorem roofAreaFromBounds_formula_witness:
  "cos (60 * pi / 180) \<noteq> 0
   \<and> roofAreaFromBounds (Some \<lparr>minX = 0, maxX = 8, minZ = 0, maxZ = 6\<rparr>) 60 1 = 160
   \<and> roofAreaFromBounds None 60 1 = 0"
proof -
  have nz: "cos (60 * pi / 180) \<noteq> 0" by (simp add: cos_60)
  from roofAreaFromBounds_formula[OF nz, of "\<lparr>minX = 0, maxX = 8, minZ = 0, maxZ = 6\<rparr>" 1] nz
  show ?thesis by (simp add: cos_60)
qed

subsection \<open>Perimeter tracing\<close>

lemma findConnection_endpoint:
  "findConnection wallSegments usedSegments currentPoint i = Some (k, p) \<Longrightarrow>
   (near (seg_start (wallSegments ! k)) currentPoint \<and> p = seg_end (wallSegments ! k))
   \<or> (near (seg_end (wallSegments ! k)) currentPoint \<and> p = seg_start (wallSegments ! k))"
proof (induction wallSegments usedSegments currentPoint i rule: findConnection.induct)
  case (1 wallSegments usedSegments currentPoint i)
  note unf = findConnection.simps[of wallSegments usedSegments currentPoint i]
  show ?case
  proof (cases "i < length wallSegments")
    case inr: True
    show ?thesis
    proof (cases "i \<in> set usedSegments")
      case True
      with inr "1.prems" have "findConnection wallSegments usedSegments currentPoint (i + 1) = Some (k, p)"
        by (simp add: unf)
      from "1.IH"(1)[OF inr True this] show ?thesis .
    next
      case notused: False
      show ?thesis
      proof (cases "near (seg_start (wallSegments ! i)) currentPoint")
        case True
        with inr notused "1.prems" have "k = i" "p = seg_end (wallSegments ! i)" by (auto simp: unf)
        with True show ?thesis by simp
      next
        case ns: False
        show ?thesis
        proof (cases "near (seg_end (wallSegments ! i)) currentPoint")
          case True
          with inr notused ns "1.prems" have "k = i" "p = seg_start (wallSegments ! i)" by (auto simp: unf)
          with True show ?thesis by simp
        next
          case False
          with inr notused ns "1.prems"
          have "findConnection wallSegments usedSegments currentPoint (i + 1) = Some (k, p)"
            by (simp add: unf)
          from "1.IH"(2)[OF inr notused refl ns False this] show ?thesis .
        qed
      qed
    qed
  next
    case False
    with "1.prems" show ?thesis by (simp add: unf)
  qed
qed

lemma traceLoop_bounds:
  "traceLoop wallSegments orderedPoints usedSegments currentPoint iterations = (ps, us, cp, its) \<Longrightarrow>
   its \<le> iterations + (length wallSegments - card (set usedSegments))
   \<and> length ps \<le> length orderedPoints + (its - iterations)
   \<and> iterations \<le> its"
proof (induction wallSegments orderedPoints usedSegments currentPoint iterations
       rule: traceLoop.induct)
  case (1 wallSegments orderedPoints usedSegments currentPoint iterations)
  note unf = traceLoop.simps[of wallSegments orderedPoints usedSegments currentPoint iterations]
  show ?case
  proof (cases "card (set usedSegments) < length wallSegments")
    case False
    with "1.prems" show ?thesis by (simp add: unf)
  next
    case lt: True
    show ?thesis
    proof (cases "findConnection wallSegments usedSegments currentPoint 0")
      case None
      with lt "1.prems" show ?thesis by (auto simp: unf)
    next
      case (Some ip)
      obtain i p where ip: "ip = (i, p)" by (cases ip)
      from Some ip have "i \<notin> set usedSegments"
        using findConnection_Some[of wallSegments usedSegments currentPoint 0 i p] by simp
      then have c: "card (set (List.insert i usedSegments)) = card (set usedSegments) + 1" by simp
      from lt Some ip "1.prems"
      have "traceLoop wallSegments (orderedPoints @ [p]) (List.insert i usedSegments) p (iterations + 1)
            = (ps, us, cp, its)"
        by (simp add: unf)
      from "1.IH"[OF lt Some ip[symmetric] this]
      have ih: "its \<le> (iterations + 1) + (length wallSegments - card (set (List.insert i usedSegments)))"
           "length ps \<le> length (orderedPoints @ [p]) + (its - (iterations + 1))"
           "iterations + 1 \<le> its"
        by blast+
      from ih(1) have a: "its \<le> (iterations + 1) + (length wallSegments - (card (set usedSegments) + 1))"
        unfolding c .
      from ih(2) have b: "length ps \<le> (length orderedPoints + 1) + (its - (iterations + 1))"
        by simp
      from a b ih(3) lt show ?thesis by arith
    qed
  qed
qed

lemma find_connects:
  "find (connects currentPoint usedWalls) ws = Some nextWall \<Longrightarrow>
   nextWall \<in> set ws \<and> wall_id nextWall \<notin> set usedWalls"
  by (auto simp: find_Some_iff connects_def)

lemma enclosedLoop_bounds:
  "enclosedLoop ws points wallIds usedWalls currentPoint iterations = (ps, ids, us, cp, its) \<Longrightarrow>
   its \<le> iterations + (length ws - card (set usedWalls))
   \<and> length ps \<le> length points + (its - iterations)
   \<and> iterations \<le> its"
proof (induction ws points wallIds usedWalls currentPoint iterations rule: enclosedLoop.induct)
  case (1 ws points wallIds usedWalls currentPoint iterations)
  note unf = enclosedLoop.simps[of ws points wallIds usedWalls currentPoint iterations]
  show ?case
  proof (cases "card (set usedWalls) < length ws")
    case False
    with "1.prems" show ?thesis by (simp add: unf)
  next
    case lt: True
    show ?thesis
    proof (cases "find (connects currentPoint usedWalls) ws")
      case None
      with lt "1.prems" show ?thesis by (auto simp: unf)
    next
      case (Some nextWall)
      define cp' where "cp' = (if calculateDistance currentPoint (wall_start nextWall) < 1 / 10
                     then wall_end nextWall else wall_start nextWall)"
      from find_connects[OF Some] have "wall_id nextWall \<notin> set usedWalls" by simp
      then have c: "card (set (List.insert (wall_id nextWall) usedWalls)) = card (set usedWalls) + 1"
        by simp
      from lt Some "1.prems"
      have "enclosedLoop ws (points @ [cp']) (wallIds @ [wall_id nextWall])
              (List.insert (wall_id nextWall) usedWalls) cp' (iterations + 1) = (ps, ids, us, cp, its)"
        by (simp add: unf Let_def cp'_def)
      from "1.IH"[OF lt Some cp'_def this]
      have ih: "its \<le> (iterations + 1) + (length ws - card (set (List.insert (wall_id nextWall) usedWalls)))"
           "length ps \<le> length (points @ [cp']) + (its - (iterations + 1))"
           "iterations + 1 \<le> its"
        by blast+
      from ih(1) have a: "its \<le> (iterations + 1) + (length ws - (card (set usedWalls) + 1))"
        unfolding c .
      from ih(2) have b: "length ps \<le> (length points + 1) + (its - (iterations + 1))"
        by simp
      from a b ih(3) lt show ?thesis by arith
    qed
  qed
qed


text \<open>
  Claim C9. The perimeter walk terminates for every finite list of wall segments. Both
  loops are total functions (their termination is proved with the measure
  \<open>length segments - size of the used set\<close>). An iteration that finds a connection takes a
  segment of the list that was not used before, so the used set grows by one, and appends
  the far endpoint of that segment; an iteration that finds none exits. Hence the roof
  walk runs at most \<open>n\<close> iterations on \<open>n\<close> segments and returns at most \<open>n + 1\<close> points, and
  the walk of \<open>findEnclosedArea\<close> likewise on the lists of at least three walls it is run on
  (a shorter list returns \<open>null\<close> before the loop).
\<close>

theorem perimeter_walk_terminates:
  "snd (tracePerimeter wallSegments) \<le> length wallSegments
   \<and> length (fst (tracePerimeter wallSegments)) \<le> length wallSegments + 1
   \<and> (findConnection wallSegments usedSegments currentPoint 0 = Some (i, p) \<longrightarrow>
        i < length wallSegments \<and> i \<notin> set usedSegments
        \<and> card (set (List.insert i usedSegments)) = card (set usedSegments) + 1
        \<and> ((near (seg_start (wallSegments ! i)) currentPoint \<and> p = seg_end (wallSegments ! i))
             \<or> (near (seg_end (wallSegments ! i)) currentPoint \<and> p = seg_start (wallSegments ! i))))
   \<and> (length ws < 3 \<longrightarrow> findEnclosedArea ws = None)
   \<and> (3 \<le> length ws \<longrightarrow>
        (case enclosedWalk ws of (points, wallIds, usedWalls', currentPoint', iterations) \<Rightarrow>
           iterations \<le> length ws \<and> length points \<le> length ws + 1))
   \<and> (find (connects fromPoint usedWalls) ws = Some nextWall \<longrightarrow>
        nextWall \<in> set ws \<and> wall_id nextWall \<notin> set usedWalls
        \<and> card (set (List.insert (wall_id nextWall) usedWalls)) = card (set usedWalls) + 1)"
proof (intro conjI)
  show "snd (tracePerimeter wallSegments) \<le> length wallSegments"
  proof (cases "length wallSegments > 0")
    case False
    then show ?thesis by (simp add: tracePerimeter_def)
  next
    case True
    obtain ps us cp its where r:
      "traceLoop wallSegments [seg_start (wallSegments ! 0), seg_end (wallSegments ! 0)] [0]
         (seg_end (wallSegments ! 0)) 0 = (ps, us, cp, its)"
      by (metis prod_cases4)
    from traceLoop_bounds[OF r] have "its \<le> length wallSegments" by auto
    with True r show ?thesis by (simp add: tracePerimeter_def Let_def)
  qed
  show "length (fst (tracePerimeter wallSegments)) \<le> length wallSegments + 1"
  proof (cases "length wallSegments > 0")
    case False
    then show ?thesis by (simp add: tracePerimeter_def)
  next
    case True
    obtain ps us cp its where r:
      "traceLoop wallSegments [seg_start (wallSegments ! 0), seg_end (wallSegments ! 0)] [0]
         (seg_end (wallSegments ! 0)) 0 = (ps, us, cp, its)"
      by (metis prod_cases4)
    from traceLoop_bounds[OF r] have "its \<le> length wallSegments - 1" "length ps \<le> 2 + its"
      by auto
    with True have "length ps \<le> length wallSegments + 1" by arith
    with True r show ?thesis by (simp add: tracePerimeter_def Let_def)
  qed
  show "findConnection wallSegments usedSegments currentPoint 0 = Some (i, p) \<longrightarrow>
        i < length wallSegments \<and> i \<notin> set usedSegments
        \<and> card (set (List.insert i usedSegments)) = card (set usedSegments) + 1
        \<and> ((near (seg_start (wallSegments ! i)) currentPoint \<and> p = seg_end (wallSegments ! i))
             \<or> (near (seg_end (wallSegments ! i)) currentPoint \<and> p = seg_start (wallSegments ! i)))"
    using findConnection_Some[of wallSegments usedSegments currentPoint 0 i p]
          findConnection_endpoint[of wallSegments usedSegments currentPoint 0 i p]
    by simp
  show "length ws < 3 \<longrightarrow> findEnclosedArea ws = None"
    by (simp add: findEnclosedArea_def)
  show "3 \<le> length ws \<longrightarrow>
        (case enclosedWalk ws of (points, wallIds, usedWalls', currentPoint', iterations) \<Rightarrow>
           iterations \<le> length ws \<and> length points \<le> length ws + 1)"
  proof
    assume "3 \<le> length ws"
    obtain ps ids us cp its where r: "enclosedWalk ws = (ps, ids, us, cp, its)"
      by (metis prod_cases5)
    then have "enclosedLoop ws [wall_start (ws ! 0)] [wall_id (ws ! 0)] [wall_id (ws ! 0)]
                 (wall_start (ws ! 0)) 0 = (ps, ids, us, cp, its)"
      by (simp add: enclosedWalk_def Let_def)
    from enclosedLoop_bounds[OF this] have "its \<le> length ws \<and> length ps \<le> length ws + 1"
      by auto
    with r show "case enclosedWalk ws of (points, wallIds, usedWalls', currentPoint', iterations) \<Rightarrow>
           iterations \<le> length ws \<and> length points \<le> length ws + 1"
      by simp
  qed
  show "find (connects fromPoint usedWalls) ws = Some nextWall \<longrightarrow>
        nextWall \<in> set ws \<and> wall_id nextWall \<notin> set usedWalls
        \<and> card (set (List.insert (wall_id nextWall) usedWalls)) = card (set usedWalls) + 1"
    using find_connects[of fromPoint usedWalls ws nextWall] by simp
qed


lemma calculateDistance_near:
  "calculateDistance p1 p2 < 1 / 10 \<longleftrightarrow> (p_x p2 - p_x p1) ^ 2 + (p_z p2 - p_z p1) ^ 2 < 1 / 100"
proof -
  have "sqrt (((1::real) / 10) ^ 2) = 1 / 10" by (simp only: real_sqrt_abs)
  then have "calculateDistance p1 p2 < 1 / 10
             \<longleftrightarrow> sqrt ((p_x p2 - p_x p1) ^ 2 + (p_z p2 - p_z p1) ^ 2) < sqrt (((1::real) / 10) ^ 2)"
    by (simp only: calculateDistance_def)
  also have "\<dots> \<longleftrightarrow> (p_x p2 - p_x p1) ^ 2 + (p_z p2 - p_z p1) ^ 2 < ((1::real) / 10) ^ 2"
    by (rule real_sqrt_less_iff)
  finally show ?thesis by (simp add: power2_eq_square)
qed

lemma calculateDistance_near_eval:
  "calculateDistance p1 p2 * 10 < 1 \<longleftrightarrow> (p_x p2 - p_x p1) ^ 2 + (p_z p2 - p_z p1) ^ 2 < 1 / 100"
  using calculateDistance_near[of p1 p2] by simp

lemma square_connection: "findConnection squareSegments [0] \<lparr>p_x = 4, p_z = 0\<rparr> 0 = Some (1, \<lparr>p_x = 4, p_z = 4\<rparr>)"
  by (simp add: squareSegments_def near_def)

lemma square_trace: "tracePerimeter squareSegments =
    ([\<lparr>p_x = 0, p_z = 0\<rparr>, \<lparr>p_x = 4, p_z = 0\<rparr>, \<lparr>p_x = 4, p_z = 4\<rparr>, \<lparr>p_x = 0, p_z = 4\<rparr>, \<lparr>p_x = 0, p_z = 0\<rparr>], 3)"
  by (simp add: tracePerimeter_def squareSegments_def near_def Let_def)

lemma triangle_next: "find (connects \<lparr>p_x = 0, p_z = 0\<rparr> [''a'']) triangleWalls
           = Some (plainWall ''b'' \<lparr>p_x = 0, p_z = 3\<rparr> \<lparr>p_x = 0, p_z = 0\<rparr>)"
  by (simp add: triangleWalls_def connects_def plainWall_def calculateDistance_near_eval)

lemma triangle_walk: "enclosedWalk triangleWalls =
    ([\<lparr>p_x = 0, p_z = 0\<rparr>, \<lparr>p_x = 0, p_z = 3\<rparr>, \<lparr>p_x = 4, p_z = 0\<rparr>], [''a'', ''b'', ''c''], [''c'', ''b'', ''a''], \<lparr>p_x = 4, p_z = 0\<rparr>, 2)"
  by (simp add: enclosedWalk_def triangleWalls_def connects_def plainWall_def calculateDistance_near_eval Let_def)

text \<open>
  The square is traced in three iterations into five points; the triangle is walked in two.
\<close>

theorem perimeter_walk_terminates_witness:
  "tracePerimeter squareSegments =
     ([\<lparr>p_x = 0, p_z = 0\<rparr>, \<lparr>p_x = 4, p_z = 0\<rparr>, \<lparr>p_x = 4, p_z = 4\<rparr>, \<lparr>p_x = 0, p_z = 4\<rparr>,
       \<lparr>p_x = 0, p_z = 0\<rparr>], 3)
   \<and> length squareSegments = 4
   \<and> findConnection squareSegments [0] \<lparr>p_x = 4, p_z = 0\<rparr> 0 = Some (1, \<lparr>p_x = 4, p_z = 4\<rparr>)
   \<and> (1::nat) \<notin> set [0]
   \<and> card (set (List.insert (1::nat) [0])) = card (set [0::nat]) + 1
   \<and> \<lparr>p_x = 4, p_z = 4\<rparr> = seg_start (squareSegments ! 1)
   \<and> enclosedWalk triangleWalls =
       ([\<lparr>p_x = 0, p_z = 0\<rparr>, \<lparr>p_x = 0, p_z = 3\<rparr>, \<lparr>p_x = 4, p_z = 0\<rparr>],
        [''a'', ''b'', ''c''], [''c'', ''b'', ''a''], \<lparr>p_x = 4, p_z = 0\<rparr>, 2)
   \<and> length triangleWalls = 3
   \<and> find (connects \<lparr>p_x = 0, p_z = 0\<rparr> [''a'']) triangleWalls
       = Some (plainWall ''b'' \<lparr>p_x = 0, p_z = 3\<rparr> \<lparr>p_x = 0, p_z = 0\<rparr>)
   \<and> wall_id (plainWall ''b'' \<lparr>p_x = 0, p_z = 3\<rparr> \<lparr>p_x = 0, p_z = 0\<rparr>) \<notin> set [''a'']"
  using perimeter_walk_terminates[where wallSegments = squareSegments and usedSegments = "[0]"
          and currentPoint = "\<lparr>p_x = 4, p_z = 0\<rparr>" and i = 1 and p = "\<lparr>p_x = 4, p_z = 4\<rparr>"
          and ws = triangleWalls and fromPoint = "\<lparr>p_x = 0, p_z = 0\<rparr>" and usedWalls = "[''a'']"
          and nextWall = "plainWall ''b'' \<lparr>p_x = 0, p_z = 3\<rparr> \<lparr>p_x = 0, p_z = 0\<rparr>"]
        square_connection square_trace triangle_next triangle_walk
  by (simp add: squareSegments_def triangleWalls_def plainWall_def)

subsection \<open>Upper floors and the footprint of floor 1\<close>

























end
